theory Spec2Isabelle
  imports Complex_Main "HOL-Library.Sublist" "HOL-Library.Monad_Syntax"
begin

section \<open>Python values\<close>

text \<open>
  The values that travel through the dictionaries of the repository (\<open>Dict[str, Any]\<close>):
  JSON-shaped data. A dictionary is an association list, since Python dictionaries keep
  insertion order and \<open>_format_result_table\<close> reads that order; keys are looked up with
  \<open>map_of\<close>.
\<close>

datatype pyval =
    PNone
  | PBool bool
  | PInt int
  | PFloat real
  | PStr string
  | PList "pyval list"
  | PDict "(string \<times> pyval) list"

type_synonym pydict = "(string \<times> pyval) list"

text \<open>Truth value testing, as \<open>if v:\<close> and \<open>bool(v)\<close> do it.\<close>

fun truthy :: "pyval \<Rightarrow> bool" where
  "truthy PNone = False"
| "truthy (PBool b) = b"
| "truthy (PInt i) = (i \<noteq> 0)"
| "truthy (PFloat x) = (x \<noteq> 0)"
| "truthy (PStr s) = (s \<noteq> [])"
| "truthy (PList xs) = (xs \<noteq> [])"
| "truthy (PDict kvs) = (kvs \<noteq> [])"

text \<open>\<open>d.get(k)\<close> gives \<open>None\<close> for a missing key, \<open>d.get(k, default)\<close> the default.\<close>

definition dict_get :: "pydict \<Rightarrow> string \<Rightarrow> pyval" where
  "dict_get d k = (case map_of d k of None \<Rightarrow> PNone | Some v \<Rightarrow> v)"

definition dict_get_default :: "pydict \<Rightarrow> string \<Rightarrow> pyval \<Rightarrow> pyval" where
  "dict_get_default d k dflt = (case map_of d k of None \<Rightarrow> dflt | Some v \<Rightarrow> v)"

text \<open>The exceptions the modelled code can raise, by class.\<close>

datatype error =
    KeyError string
  | ValueError
  | TypeError
  | IllTyped string

text \<open>
  \<open>d[k]\<close> raises \<open>KeyError\<close> for a missing key.
\<close>

definition dict_item :: "pydict \<Rightarrow> string \<Rightarrow> error + pyval" where
  "dict_item d k = (case map_of d k of None \<Rightarrow> Inl (KeyError k) | Some v \<Rightarrow> Inr v)"

section \<open>Strings\<close>

text \<open>
  Text is a list of 8-bit characters; the model covers ASCII text, on which
  \<open>str.upper\<close> maps \<open>a\<close>..\<open>z\<close> to \<open>A\<close>..\<open>Z\<close> and leaves every other character alone.
\<close>

definition upper_char :: "char \<Rightarrow> char" where
  "upper_char c =
     (let n = (of_char c :: nat) in if 97 \<le> n \<and> n \<le> 122 then char_of (n - 32) else c)"

definition upper :: "string \<Rightarrow> string" where
  "upper s = map upper_char s"

text \<open>\<open>sub in s\<close> on strings: \<open>sub\<close> occurs in \<open>s\<close> as a contiguous run of characters.\<close>

fun starts_with :: "string \<Rightarrow> string \<Rightarrow> bool" where
  "starts_with s [] = True"
| "starts_with [] (k # ks) = False"
| "starts_with (c # cs) (k # ks) = (c = k \<and> starts_with cs ks)"

fun str_contains :: "string \<Rightarrow> string \<Rightarrow> bool" where
  "str_contains [] sub = (sub = [])"
| "str_contains (c # cs) sub = (starts_with (c # cs) sub \<or> str_contains cs sub)"

text \<open>Decimal digits, zero-padded fields (\<open>%02d\<close>, \<open>%04d\<close>, \<open>%06d\<close>) and \<open>str(int)\<close>.\<close>

definition digit_char :: "nat \<Rightarrow> char" where
  "digit_char d = char_of (48 + d)"

fun zfill :: "nat \<Rightarrow> nat \<Rightarrow> string" where
  "zfill 0 n = []"
| "zfill (Suc k) n = zfill k (n div 10) @ [digit_char (n mod 10)]"

fun nat_str :: "nat \<Rightarrow> string" where
  "nat_str n = (if n < 10 then [digit_char n] else nat_str (n div 10) @ [digit_char (n mod 10)])"

declare nat_str.simps [simp del]

definition int_str :: "int \<Rightarrow> string" where
  "int_str i = (if i < 0 then ''-'' @ nat_str (nat (- i)) else nat_str (nat i))"

definition bool_str :: "bool \<Rightarrow> string" where
  "bool_str b = (if b then ''True'' else ''False'')"

section \<open>Timestamps\<close>

text \<open>
  A naive \<open>datetime\<close>, as \<open>datetime.utcnow()\<close> makes it and as every timestamp of this
  repository is. Python only ever holds valid ones (\<open>valid_datetime\<close>): the constructor
  raises \<open>ValueError\<close> otherwise.
\<close>

record datetime =
  year :: nat
  month :: nat
  day :: nat
  hour :: nat
  minute :: nat
  second :: nat
  microsecond :: nat

definition is_leap :: "nat \<Rightarrow> bool" where
  "is_leap y = (y mod 4 = 0 \<and> (y mod 100 \<noteq> 0 \<or> y mod 400 = 0))"

definition days_in_month :: "nat \<Rightarrow> nat \<Rightarrow> nat" where
  "days_in_month y m =
     (if m = 2 then (if is_leap y then 29 else 28)
      else if m = 4 \<or> m = 6 \<or> m = 9 \<or> m = 11 then 30 else 31)"

definition valid_datetime :: "datetime \<Rightarrow> bool" where
  "valid_datetime dt =
     (1 \<le> year dt \<and> year dt \<le> 9999 \<and> 1 \<le> month dt \<and> month dt \<le> 12 \<and>
      1 \<le> day dt \<and> day dt \<le> days_in_month (year dt) (month dt) \<and>
      hour dt < 24 \<and> minute dt < 60 \<and> second dt < 60 \<and> microsecond dt < 1000000)"

text \<open>
  \<open>datetime.isoformat(sep)\<close>: \<open>YYYY-MM-DD\<close>, the separator, \<open>HH:MM:SS\<close>, and
  \<open>.ffffff\<close> only when the microsecond is not zero. \<open>str(datetime)\<close> is
  \<open>isoformat(sep=' ')\<close>.
\<close>

definition isoformat_sep :: "char \<Rightarrow> datetime \<Rightarrow> string" where
  "isoformat_sep sep dt =
     zfill 4 (year dt) @ ''-'' @ zfill 2 (month dt) @ ''-'' @ zfill 2 (day dt) @ [sep] @
     zfill 2 (hour dt) @ '':'' @ zfill 2 (minute dt) @ '':'' @ zfill 2 (second dt) @
     (if microsecond dt = 0 then [] else ''.'' @ zfill 6 (microsecond dt))"

definition isoformat :: "datetime \<Rightarrow> string" where
  "isoformat dt = isoformat_sep CHR ''T'' dt"

definition datetime_str :: "datetime \<Rightarrow> string" where
  "datetime_str dt = isoformat_sep CHR '' '' dt"

text \<open>
  \<open>strftime('%Y%m%d_%H%M%S')\<close>. (Below year 1000 the width of \<open>%Y\<close> depends on the
  platform's C library; the four digits here are what every later year gives.)
\<close>

definition strftime_compact :: "datetime \<Rightarrow> string" where
  "strftime_compact dt =
     zfill 4 (year dt) @ zfill 2 (month dt) @ zfill 2 (day dt) @ ''_'' @
     zfill 2 (hour dt) @ zfill 2 (minute dt) @ zfill 2 (second dt)"

text \<open>
  \<open>datetime.fromisoformat\<close>, for naive timestamps, with the grammar of CPython 3.7 to 3.10:
  \<open>YYYY-MM-DD\<close>, then nothing, or any one separator character and
  \<open>HH[:MM[:SS[.fff[fff]]]]\<close>; fields are ASCII digits. A string outside the grammar, or
  one whose fields are no valid date and time, raises \<open>ValueError\<close>. (A UTC offset
  suffix would give an aware timestamp, which this model does not represent.)
\<close>

definition digit_val :: "char \<Rightarrow> nat option" where
  "digit_val c =
     (let n = (of_char c :: nat) in if 48 \<le> n \<and> n \<le> 57 then Some (n - 48) else None)"

fun parse_digits_acc :: "nat \<Rightarrow> string \<Rightarrow> nat option" where
  "parse_digits_acc acc [] = Some acc"
| "parse_digits_acc acc (c # cs) =
     (case digit_val c of None \<Rightarrow> None | Some d \<Rightarrow> parse_digits_acc (10 * acc + d) cs)"

definition take_number :: "nat \<Rightarrow> string \<Rightarrow> (nat \<times> string) option" where
  "take_number k s =
     (if length s < k \<or> k = 0 then None
      else map_option (\<lambda>n. (n, drop k s)) (parse_digits_acc 0 (take k s)))"

definition expect :: "char \<Rightarrow> string \<Rightarrow> string option" where
  "expect c s = (case s of [] \<Rightarrow> None | x # xs \<Rightarrow> if x = c then Some xs else None)"

definition parse_isoformat_date :: "string \<Rightarrow> ((nat \<times> nat \<times> nat) \<times> string) option" where
  "parse_isoformat_date s =
     do {
       (y, s1) \<leftarrow> take_number 4 s;
       s2 \<leftarrow> expect CHR ''-'' s1;
       (m, s3) \<leftarrow> take_number 2 s2;
       s4 \<leftarrow> expect CHR ''-'' s3;
       (d, s5) \<leftarrow> take_number 2 s4;
       Some ((y, m, d), s5)
     }"

definition parse_fraction :: "string \<Rightarrow> nat option" where
  "parse_fraction s =
     (case s of
        [] \<Rightarrow> Some 0
      | c # f \<Rightarrow>
          if c \<noteq> CHR ''.'' then None
          else if length f = 6 then parse_digits_acc 0 f
          else if length f = 3 then map_option (\<lambda>n. n * 1000) (parse_digits_acc 0 f)
          else None)"

definition parse_hh_mm_ss_ff :: "string \<Rightarrow> (nat \<times> nat \<times> nat \<times> nat) option" where
  "parse_hh_mm_ss_ff t =
     do {
       (h, t1) \<leftarrow> take_number 2 t;
       if t1 = [] then Some (h, 0, 0, 0)
       else do {
         t2 \<leftarrow> expect CHR '':'' t1;
         (mi, t3) \<leftarrow> take_number 2 t2;
         if t3 = [] then Some (h, mi, 0, 0)
         else do {
           t4 \<leftarrow> expect CHR '':'' t3;
           (sec, t5) \<leftarrow> take_number 2 t4;
           us \<leftarrow> parse_fraction t5;
           Some (h, mi, sec, us)
         }
       }
     }"

definition parse_isoformat :: "string \<Rightarrow> datetime option" where
  "parse_isoformat s =
     do {
       ((y, m, d), rest) \<leftarrow> parse_isoformat_date s;
       (case rest of
          [] \<Rightarrow>
            Some \<lparr>year = y, month = m, day = d, hour = 0, minute = 0, second = 0,
                  microsecond = 0\<rparr>
        | sep # t \<Rightarrow>
            do {
              (h, mi, sec, us) \<leftarrow> parse_hh_mm_ss_ff t;
              Some \<lparr>year = y, month = m, day = d, hour = h, minute = mi, second = sec,
                    microsecond = us\<rparr>
            })
     }"

definition fromisoformat :: "pyval \<Rightarrow> error + datetime" where
  "fromisoformat v =
     (case v of
        PStr s \<Rightarrow>
          (case parse_isoformat s of
             None \<Rightarrow> Inl ValueError
           | Some dt \<Rightarrow> if valid_datetime dt then Inr dt else Inl ValueError)
      | _ \<Rightarrow> Inl TypeError)"

section \<open>The query record (sql_executor.py)\<close>

text \<open>
  The dataclass \<open>SQLQuery\<close>, its fields typed as annotated. \<open>post_init\<close> is
  \<open>__post_init__\<close>; it reads the clock (\<open>datetime.utcnow()\<close>), passed as \<open>now\<close>.
\<close>

record SQLQuery =
  query :: string
  name :: "string option"
  description :: "string option"
  parameters :: "pydict option"
  created_at :: "datetime option"

definition post_init :: "datetime \<Rightarrow> SQLQuery \<Rightarrow> SQLQuery" where
  "post_init now self =
     (let c = (case created_at self of None \<Rightarrow> now | Some t \<Rightarrow> t);
          n = (case name self of
                 None \<Rightarrow> ''query_'' @ strftime_compact c
               | Some given \<Rightarrow> given)
      in self\<lparr>name := Some n, created_at := Some c\<rparr>)"

definition SQLQuery_init ::
  "datetime \<Rightarrow> string \<Rightarrow> string option \<Rightarrow> string option \<Rightarrow> pydict option \<Rightarrow>
   datetime option \<Rightarrow> SQLQuery" where
  "SQLQuery_init now q n d p c =
     post_init now \<lparr>query = q, name = n, description = d, parameters = p, created_at = c\<rparr>"

text \<open>\<open>to_dict\<close>. A \<open>datetime\<close> is always true in a condition, so only \<open>None\<close> gives \<open>None\<close>.\<close>

definition opt_str :: "string option \<Rightarrow> pyval" where
  "opt_str s = (case s of None \<Rightarrow> PNone | Some t \<Rightarrow> PStr t)"

definition to_dict :: "SQLQuery \<Rightarrow> pydict" where
  "to_dict self =
     [(''query'', PStr (query self)),
      (''name'', opt_str (name self)),
      (''description'', opt_str (description self)),
      (''parameters'', (case parameters self of None \<Rightarrow> PNone | Some p \<Rightarrow> PDict p)),
      (''created_at'',
         (case created_at self of None \<Rightarrow> PNone | Some dt \<Rightarrow> PStr (isoformat dt)))]"

text \<open>
  \<open>from_dict\<close>, in the source's order of evaluation: the timestamp is parsed first when
  the \<open>created_at\<close> entry is present and true, then \<open>data["query"]\<close> is read, then the
  optional entries. Python does not check the entries against the annotations of the
  dataclass; the record of this model is typed, so an entry of another type, which the
  source would store as it is, is reported as \<open>IllTyped\<close>, apart from the source's own
  exceptions.
\<close>

definition as_str :: "string \<Rightarrow> pyval \<Rightarrow> error + string" where
  "as_str k v = (case v of PStr s \<Rightarrow> Inr s | _ \<Rightarrow> Inl (IllTyped k))"

definition as_opt_str :: "string \<Rightarrow> pyval \<Rightarrow> error + string option" where
  "as_opt_str k v = (case v of PNone \<Rightarrow> Inr None | PStr s \<Rightarrow> Inr (Some s) | _ \<Rightarrow> Inl (IllTyped k))"

definition as_opt_dict :: "string \<Rightarrow> pyval \<Rightarrow> error + pydict option" where
  "as_opt_dict k v =
     (case v of PNone \<Rightarrow> Inr None | PDict d \<Rightarrow> Inr (Some d) | _ \<Rightarrow> Inl (IllTyped k))"

definition from_dict :: "datetime \<Rightarrow> pydict \<Rightarrow> error + SQLQuery" where
  "from_dict now data =
     (case (if truthy (dict_get data ''created_at'')
            then (case dict_item data ''created_at'' of
                    Inl e \<Rightarrow> Inl e
                  | Inr v \<Rightarrow> map_sum id Some (fromisoformat v))
            else Inr None) of
        Inl e \<Rightarrow> Inl e
      | Inr c \<Rightarrow>
          (case dict_item data ''query'' of
             Inl e \<Rightarrow> Inl e
           | Inr qv \<Rightarrow>
               (case as_str ''query'' qv of
                  Inl e \<Rightarrow> Inl e
                | Inr q \<Rightarrow>
                    (case as_opt_str ''name'' (dict_get data ''name'') of
                       Inl e \<Rightarrow> Inl e
                     | Inr n \<Rightarrow>
                         (case as_opt_str ''description'' (dict_get data ''description'') of
                            Inl e \<Rightarrow> Inl e
                          | Inr d \<Rightarrow>
                              (case as_opt_dict ''parameters'' (dict_get data ''parameters'') of
                                 Inl e \<Rightarrow> Inl e
                               | Inr p \<Rightarrow> Inr (SQLQuery_init now q n d p c)))))))"

section \<open>What the interpreter and the environment supply\<close>

text \<open>
  The code reads the clock, hashes strings (seeded per process), prints values, builds a
  ZenML \<open>Client\<close> and asks it for secrets, and measures elapsed time. One \<open>world\<close> holds
  the outcome of each for one call:
  \<^item> \<open>utcnow\<close>: the reading of \<open>datetime.utcnow()\<close>;
  \<^item> \<open>py_hash\<close>: the builtin \<open>hash\<close> on strings;
  \<^item> \<open>py_repr\<close>: how \<open>str()\<close> prints floats and containers;
  \<^item> \<open>client_init\<close>: \<open>None\<close> when \<open>Client()\<close> returns, \<open>Some msg\<close> when it raises an
    exception whose \<open>str()\<close> is \<open>msg\<close>;
  \<^item> \<open>get_secret\<close>: \<open>Inr values\<close> when the named secret exists (its \<open>secret_values\<close>),
    \<open>Inl msg\<close> when the lookup raises;
  \<^item> \<open>execution_time_ms\<close>: the measured time in milliseconds, rounded to two places.
\<close>

record world =
  utcnow :: datetime
  py_hash :: "string \<Rightarrow> int"
  py_repr :: "pyval \<Rightarrow> string"
  client_init :: "string option"
  get_secret :: "string \<Rightarrow> string + (string \<times> string) list"
  execution_time_ms :: real

definition py_str :: "world \<Rightarrow> pyval \<Rightarrow> string" where
  "py_str w v =
     (case v of
        PNone \<Rightarrow> ''None''
      | PBool b \<Rightarrow> bool_str b
      | PInt i \<Rightarrow> int_str i
      | PStr s \<Rightarrow> s
      | _ \<Rightarrow> py_repr w v)"

section \<open>Execution of a query record (sql_executor.py)\<close>

definition mock_execute :: "world \<Rightarrow> SQLQuery \<Rightarrow> pydict" where
  "mock_execute w self =
     [(''status'', PStr ''success''),
      (''rows_affected'', PInt 42),
      (''execution_time_ms'', PInt 150),
      (''result_preview'', PList
         [PDict [(''id'', PInt 1), (''name'', PStr ''John Doe''),
                 (''email'', PStr ''john@example.com'')],
          PDict [(''id'', PInt 2), (''name'', PStr ''Jane Smith''),
                 (''email'', PStr ''jane@example.com'')],
          PDict [(''id'', PInt 3), (''name'', PStr ''Bob Johnson''),
                 (''email'', PStr ''bob@example.com'')]]),
      (''metadata'', PDict
         [(''query_hash'', PInt (py_hash w (query self))),
          (''executed_at'', PStr (isoformat (utcnow w)))])]"

definition real_execute_error :: "SQLQuery \<Rightarrow> string \<Rightarrow> pydict" where
  "real_execute_error self msg =
     [(''status'', PStr ''error''),
      (''message'', PStr (''Failed to execute query: '' @ msg)),
      (''query'', PStr (query self))]"

definition real_execute :: "world \<Rightarrow> SQLQuery \<Rightarrow> pydict" where
  "real_execute w self =
     (case client_init w of
        Some msg \<Rightarrow> real_execute_error self msg
      | None \<Rightarrow>
          (case get_secret w ''bigquery_credentials'' of
             Inl msg \<Rightarrow> real_execute_error self msg
           | Inr secret_values \<Rightarrow>
               [(''status'', PStr ''success''),
                (''message'', PStr (''Would execute query using BigQuery project: '' @
                   (case map_of secret_values ''project_id'' of
                      None \<Rightarrow> ''None''
                    | Some p \<Rightarrow> p))),
                (''query'', PStr (query self)),
                (''mock'', PBool True)]))"

definition execute :: "world \<Rightarrow> SQLQuery \<Rightarrow> bool \<Rightarrow> pydict" where
  "execute w self mock = (if mock then mock_execute w self else real_execute w self)"

text \<open>
  \<open>_format_result_table\<close>: the two loops append to \<open>table_html\<close>; \<open>fold\<close> runs them with
  the string built so far as the accumulator.
\<close>

definition th_cell :: "string \<Rightarrow> string" where
  \<open>th_cell header =
     ''<th style="border: 1px solid #ddd; padding: 8px; background: #f2f2f2;">'' @ header @
     ''</th>''\<close>

definition td_cell :: "string \<Rightarrow> string" where
  \<open>td_cell text = ''<td style="border: 1px solid #ddd; padding: 8px;">'' @ text @ ''</td>''\<close>

definition row_get :: "world \<Rightarrow> pydict \<Rightarrow> string \<Rightarrow> string" where
  "row_get w row header = (case map_of row header of None \<Rightarrow> [] | Some v \<Rightarrow> py_str w v)"

definition format_result_table :: "world \<Rightarrow> pydict list \<Rightarrow> string" where
  \<open>format_result_table w results =
     (case results of
        [] \<Rightarrow> ''<p>No results to display.</p>''
      | first # _ \<Rightarrow>
          (let headers = map fst first;
               table_html = ''<table style="width: 100%; border-collapse: collapse; margin: 10px 0;">'';
               table_html = table_html @ ''<thead><tr>'';
               table_html = fold (\<lambda>header html. html @ th_cell header) headers table_html;
               table_html = table_html @ ''</tr></thead><tbody>'';
               table_html =
                 fold (\<lambda>row html.
                         fold (\<lambda>header html. html @ td_cell (row_get w row header)) headers
                           (html @ ''<tr>'') @ ''</tr>'')
                   results table_html
           in table_html @ ''</tbody></table>''))\<close>

section \<open>The materializer (sql_materializer.py)\<close>

definition sql_keywords :: "string list" where
  "sql_keywords =
     [''SELECT'', ''FROM'', ''WHERE'', ''JOIN'', ''INNER JOIN'', ''LEFT JOIN'', ''RIGHT JOIN'',
      ''GROUP BY'', ''ORDER BY'', ''HAVING'', ''INSERT'', ''UPDATE'', ''DELETE'', ''CREATE'',
      ''ALTER'', ''DROP'', ''INDEX'', ''TABLE'', ''VIEW'', ''PROCEDURE'', ''FUNCTION'',
      ''UNION'', ''INTERSECT'', ''EXCEPT'', ''WITH'', ''CTE'', ''WINDOW'', ''OVER'',
      ''PARTITION BY'', ''ROW_NUMBER'', ''RANK'', ''DENSE_RANK'', ''COUNT'', ''SUM'',
      ''AVG'', ''MIN'', ''MAX'', ''CASE'', ''WHEN'', ''THEN'', ''ELSE'', ''END'']"

definition extract_sql_keywords :: "string \<Rightarrow> string list" where
  "extract_sql_keywords q =
     (let query_upper = upper q
      in fold (\<lambda>keyword found_keywords.
                 if str_contains query_upper keyword then found_keywords @ [keyword]
                 else found_keywords)
           sql_keywords [])"

fun join :: "string \<Rightarrow> string list \<Rightarrow> string" where
  "join sep [] = []"
| "join sep [x] = x"
| "join sep (x # y # ys) = x @ sep @ join sep (y # ys)"

text \<open>\<open>bool(data.parameters)\<close> and \<open>len(data.parameters) if data.parameters else 0\<close>.\<close>

definition has_parameters :: "SQLQuery \<Rightarrow> bool" where
  "has_parameters data = (case parameters data of None \<Rightarrow> False | Some p \<Rightarrow> p \<noteq> [])"

definition parameter_count :: "SQLQuery \<Rightarrow> int" where
  "parameter_count data =
     (case parameters data of None \<Rightarrow> 0 | Some p \<Rightarrow> if p \<noteq> [] then int (length p) else 0)"

definition extract_metadata :: "world \<Rightarrow> SQLQuery \<Rightarrow> pydict" where
  "extract_metadata w data =
     (let execution_result = execute w data True;
          metadata =
            [(''query_name'', opt_str (name data)),
             (''query_length'', PInt (int (length (query data)))),
             (''query_hash'', PStr (int_str (py_hash w (query data)))),
             (''has_parameters'', PBool (has_parameters data)),
             (''parameter_count'', PInt (parameter_count data)),
             (''execution_status'', dict_get_default execution_result ''status'' (PStr ''unknown'')),
             (''rows_affected'', dict_get_default execution_result ''rows_affected'' (PInt 0)),
             (''execution_time_ms'',
                dict_get_default execution_result ''execution_time_ms'' (PInt 0)),
             (''created_at'',
                (case created_at data of None \<Rightarrow> PNone | Some dt \<Rightarrow> PStr (isoformat dt)))];
          metadata =
            (case description data of
               None \<Rightarrow> metadata
             | Some d \<Rightarrow> if d \<noteq> [] then metadata @ [(''description'', PStr d)] else metadata);
          found = extract_sql_keywords (query data);
          metadata =
            (if found \<noteq> [] then metadata @ [(''sql_keywords'', PStr (join '', '' found))]
             else metadata)
      in metadata)"

text \<open>
  \<open>_generate_csv_metadata\<close>. The source ends every record with the literal \<open>"\\n"\<close> of an
  ordinary (not raw) string: the two characters backslash and \<open>n\<close>.
\<close>

definition csv_eol :: string where
  "csv_eol = [CHR 0x5C, CHR ''n'']"

definition opt_name_str :: "string option \<Rightarrow> string" where
  "opt_name_str n = (case n of None \<Rightarrow> ''None'' | Some s \<Rightarrow> s)"

definition opt_datetime_str :: "datetime option \<Rightarrow> string" where
  "opt_datetime_str c = (case c of None \<Rightarrow> ''None'' | Some dt \<Rightarrow> datetime_str dt)"

definition generate_csv_metadata :: "world \<Rightarrow> SQLQuery \<Rightarrow> string" where
  "generate_csv_metadata w data =
     (let execution_result = execute w data True;
          csv_content = ''attribute,value'' @ csv_eol;
          csv_content = csv_content @ ''name,'' @ opt_name_str (name data) @ csv_eol;
          csv_content = csv_content @ ''query_length,'' @
            int_str (int (length (query data))) @ csv_eol;
          csv_content = csv_content @ ''query_hash,'' @
            int_str (py_hash w (query data)) @ csv_eol;
          csv_content = csv_content @ ''created_at,'' @
            opt_datetime_str (created_at data) @ csv_eol;
          csv_content = csv_content @ ''execution_status,'' @
            py_str w (dict_get_default execution_result ''status'' (PStr ''unknown'')) @ csv_eol;
          csv_content = csv_content @ ''rows_affected,'' @
            py_str w (dict_get_default execution_result ''rows_affected'' (PInt 0)) @ csv_eol;
          csv_content = csv_content @ ''execution_time_ms,'' @
            py_str w (dict_get_default execution_result ''execution_time_ms'' (PInt 0)) @ csv_eol;
          csv_content = csv_content @ ''has_parameters,'' @
            bool_str (has_parameters data) @ csv_eol;
          csv_content = csv_content @ ''parameter_count,'' @
            int_str (parameter_count data) @ csv_eol
      in csv_content)"

section \<open>The batch pipeline (simple_sql_pipeline.py)\<close>

text \<open>
  The \<open>@step\<close> and \<open>@pipeline\<close> decorators are read as plain function calls, run in the
  order written. Each \<open>print\<close> of the source is an event that carries the values it
  prints; the three prints after a successful execution are one event, and the printed
  time is left out.
\<close>

datatype event =
    ExecutingScript string
  | QueryText string
  | UsingCredentials string
  | NoCredentials
  | ScriptExecuted string int
  | ScriptError string string
  | ValidationFailed pyval pyval
  | ValidationPassed pyval
  | PipelineStopped string

definition sample_data_select :: "pyval list" where
  "sample_data_select =
     [PDict [(''id'', PInt 1), (''name'', PStr ''John Doe''), (''status'', PStr ''active'')],
      PDict [(''id'', PInt 2), (''name'', PStr ''Jane Smith''), (''status'', PStr ''active'')],
      PDict [(''id'', PInt 3), (''name'', PStr ''Bob Johnson''), (''status'', PStr ''inactive'')]]"

text \<open>The \<open>if\<close>/\<open>elif\<close> chain that picks the canned result from the upper-cased text.\<close>

definition classify :: "string \<Rightarrow> int \<times> string \<times> pyval list" where
  "classify q =
     (if str_contains (upper q) ''SELECT'' then (0, ''query'', sample_data_select)
      else if str_contains (upper q) ''INSERT'' then (5, ''insert'', [])
      else if str_contains (upper q) ''UPDATE'' then (12, ''update'', [])
      else if str_contains (upper q) ''DELETE'' then (3, ''delete'', [])
      else (0, ''unknown'', []))"

text \<open>
  \<open>execute_sql_script\<close>. An exception of \<open>Client()\<close> reaches the outer handler, which
  returns the error result; an exception of the secret lookup is caught by the inner
  handler, and execution goes on without credentials.
\<close>

definition execute_sql_script :: "world \<Rightarrow> string \<Rightarrow> string \<Rightarrow> pydict \<times> event list" where
  "execute_sql_script w script_name q =
     (let log0 = [ExecutingScript script_name, QueryText (take 100 q)]
      in case client_init w of
           Some msg \<Rightarrow>
             ([(''script_name'', PStr script_name),
               (''status'', PStr ''error''),
               (''error_message'', PStr msg),
               (''rows_affected'', PInt 0),
               (''execution_time_ms'', PInt 0)],
              log0 @ [ScriptError script_name msg])
         | None \<Rightarrow>
             (let log1 =
                    (case get_secret w ''db_credentials'' of
                       Inr secret_values \<Rightarrow>
                         [UsingCredentials
                            (case map_of secret_values ''host'' of
                               None \<Rightarrow> ''unknown''
                             | Some h \<Rightarrow> h)]
                     | Inl msg \<Rightarrow> [NoCredentials]);
                  (rows_affected, result_type, sample_data) = classify q;
                  result =
                    [(''script_name'', PStr script_name),
                     (''status'', PStr ''success''),
                     (''rows_affected'', PInt rows_affected),
                     (''execution_time_ms'', PFloat (execution_time_ms w)),
                     (''result_type'', PStr result_type),
                     (''sample_data'', PList sample_data),
                     (''query_length'', PInt (int (length q)))]
              in (result, log0 @ log1 @ [ScriptExecuted script_name rows_affected])))"

text \<open>\<open>validate_results\<close>; \<open>results["status"]\<close> and \<open>results['script_name']\<close> raise on a missing key.\<close>

definition validate_results :: "pydict \<Rightarrow> error + bool \<times> event list" where
  "validate_results results =
     (case dict_item results ''status'' of
        Inl e \<Rightarrow> Inl e
      | Inr st \<Rightarrow>
          (case dict_item results ''script_name'' of
             Inl e \<Rightarrow> Inl e
           | Inr n \<Rightarrow>
               if st \<noteq> PStr ''success''
               then Inr (False,
                      [ValidationFailed n
                         (dict_get_default results ''error_message'' (PStr ''Unknown error''))])
               else Inr (True, [ValidationPassed n])))"




section \<open>Sample inputs\<close>

text \<open>A clock reading and a world in which \<open>Client()\<close> returns and no secret is stored.\<close>

definition t0 :: datetime where
  "t0 = \<lparr>year = 2024, month = 2, day = 29, hour = 7, minute = 5, second = 9,
          microsecond = 1234\<rparr>"

definition world0 :: world where
  "world0 =
     \<lparr>utcnow = t0,
      py_hash = (\<lambda>s. int (length s)),
      py_repr = (\<lambda>v. ''...''),
      client_init = None,
      get_secret = (\<lambda>k. Inl ''secret not found''),
      execution_time_ms = 100\<rparr>"

definition query0 :: SQLQuery where
  "query0 = SQLQuery_init t0 ''SELECT 1'' None None None None"

section \<open>Auxiliary definitions for the proofs\<close>

text \<open>The entries that \<open>extract_metadata\<close> always writes, with the mock result filled in.\<close>

definition metadata_base :: "world \<Rightarrow> SQLQuery \<Rightarrow> pydict" where
  "metadata_base w data =
     [(''query_name'', opt_str (name data)),
      (''query_length'', PInt (int (length (query data)))),
      (''query_hash'', PStr (int_str (py_hash w (query data)))),
      (''has_parameters'', PBool (has_parameters data)),
      (''parameter_count'', PInt (parameter_count data)),
      (''execution_status'', PStr ''success''),
      (''rows_affected'', PInt 42),
      (''execution_time_ms'', PInt 150),
      (''created_at'',
         (case created_at data of None \<Rightarrow> PNone | Some dt \<Rightarrow> PStr (isoformat dt)))]"

text \<open>The names of the scripts whose execution was started, in order: one per call of \<open>execute_sql_script\<close>.\<close>

fun executed :: "event list \<Rightarrow> string list" where
  "executed [] = []"
| "executed (ExecutingScript n # es) = n # executed es"
| "executed (e # es) = executed es"


text \<open>The two results of \<open>execute_sql_script\<close>, and the results of a run of scripts from call \<open>i\<close> on.\<close>

definition ok_result :: "world \<Rightarrow> string \<Rightarrow> string \<Rightarrow> pydict" where
  "ok_result w n q =
     [(''script_name'', PStr n),
      (''status'', PStr ''success''),
      (''rows_affected'', PInt (fst (classify q))),
      (''execution_time_ms'', PFloat (execution_time_ms w)),
      (''result_type'', PStr (fst (snd (classify q)))),
      (''sample_data'', PList (snd (snd (classify q)))),
      (''query_length'', PInt (int (length q)))]"

definition error_result :: "string \<Rightarrow> string \<Rightarrow> pydict" where
  "error_result n msg =
     [(''script_name'', PStr n),
      (''status'', PStr ''error''),
      (''error_message'', PStr msg),
      (''rows_affected'', PInt 0),
      (''execution_time_ms'', PInt 0)]"

fun results_of :: "(nat \<Rightarrow> world) \<Rightarrow> nat \<Rightarrow> (string \<times> string) list \<Rightarrow> pydict list" where
  "results_of ws i [] = []"
| "results_of ws i (s # rest) =
     fst (execute_sql_script (ws i) (fst s) (snd s)) # results_of ws (Suc i) rest"


text \<open>A query with a common table expression, a window function and a join.\<close>

definition cte_query :: string where
  "cte_query = ''with t as (select rank() over (order by a) r from u) select * from t join v on 1=1''"

text \<open>Two sample rows, the second without the key \<open>name\<close> of the first.\<close>

definition rows0 :: "pydict list" where
  "rows0 = [[(''id'', PInt 1), (''name'', PStr ''a'')], [(''id'', PInt 2)]]"

text \<open>A record whose name contains a comma.\<close>

definition query_comma :: SQLQuery where
  "query_comma = SQLQuery_init t0 ''SELECT 1'' (Some ''a,b'') None None None"

text \<open>\<open>s.split(c)\<close> for a one-character separator: the fields of a line.\<close>

fun split_on :: "char \<Rightarrow> string \<Rightarrow> string list" where
  "split_on c [] = [[]]"
| "split_on c (x # xs) =
     (if x = c then [] # split_on c xs
      else (case split_on c xs of [] \<Rightarrow> [[x]] | f # fs \<Rightarrow> (x # f) # fs))"

text \<open>
  The two-column schema in the spec's words: the header record and one record per
  attribute, each an attribute name and the text of its value.
\<close>

definition csv_records :: "world \<Rightarrow> SQLQuery \<Rightarrow> (string \<times> string) list" where
  "csv_records w data =
     [(''attribute'', ''value''),
      (''name'', opt_name_str (name data)),
      (''query_length'', int_str (int (length (query data)))),
      (''query_hash'', int_str (py_hash w (query data))),
      (''created_at'', opt_datetime_str (created_at data)),
      (''execution_status'', ''success''),
      (''rows_affected'', ''42''),
      (''execution_time_ms'', ''150''),
      (''has_parameters'', bool_str (has_parameters data)),
      (''parameter_count'', int_str (parameter_count data))]"

section \<open>Dictionary lookups\<close>

lemma dict_get_Cons [simp]:
  "dict_get ((k', v) # d) k = (if k = k' then v else dict_get d k)"
  by (simp add: dict_get_def)

lemma dict_get_Nil [simp]: "dict_get [] k = PNone"
  by (simp add: dict_get_def)

lemma dict_get_default_Cons [simp]:
  "dict_get_default ((k', v) # d) k dflt = (if k = k' then v else dict_get_default d k dflt)"
  by (simp add: dict_get_default_def)

lemma dict_get_append_left:
  "map_of d k = Some v \<Longrightarrow> dict_get (d @ d') k = v"
  by (simp add: dict_get_def)

section \<open>Mock execution is constant\<close>

lemma execute_mock [simp]: "execute w r True = mock_execute w r"
  by (simp add: execute_def)

lemma mock_status [simp]:
  "dict_get_default (mock_execute w r) ''status'' d = PStr ''success''"
  by (simp add: mock_execute_def)

lemma mock_rows_affected [simp]:
  "dict_get_default (mock_execute w r) ''rows_affected'' d = PInt 42"
  by (simp add: mock_execute_def)

lemma mock_execution_time [simp]:
  "dict_get_default (mock_execute w r) ''execution_time_ms'' d = PInt 150"
  by (simp add: mock_execute_def)

lemma extract_metadata_base:
  "\<exists>rest. extract_metadata w r = metadata_base w r @ rest"
  by (simp add: extract_metadata_def metadata_base_def Let_def split: option.split)

lemma metadata_status:
  "dict_get (extract_metadata w r) ''execution_status'' = PStr ''success''"
proof -
  obtain rest where e: "extract_metadata w r = metadata_base w r @ rest"
    using extract_metadata_base by blast
  have "map_of (metadata_base w r) ''execution_status'' = Some (PStr ''success'')"
    by (simp add: metadata_base_def)
  then show ?thesis
    unfolding e by (rule dict_get_append_left)
qed

lemma metadata_rows:
  "dict_get (extract_metadata w r) ''rows_affected'' = PInt 42"
proof -
  obtain rest where e: "extract_metadata w r = metadata_base w r @ rest"
    using extract_metadata_base by blast
  have "map_of (metadata_base w r) ''rows_affected'' = Some (PInt 42)"
    by (simp add: metadata_base_def)
  then show ?thesis
    unfolding e by (rule dict_get_append_left)
qed

text \<open>
  Claim C10. \<open>SQLQuery.execute(mock=True)\<close> returns the same status (\<open>success\<close>), rows
  affected (42), execution time (150) and three-row preview with the keys \<open>id\<close>, \<open>name\<close>,
  \<open>email\<close> for every record and every world, whatever the query text; so
  \<open>extract_metadata\<close> reports \<open>execution_status\<close> \<open>success\<close> and \<open>rows_affected\<close> 42 for
  every record.
\<close>

theorem mock_execute_constant:
  "dict_get (execute w r True) ''status'' = PStr ''success'' \<and>
   dict_get (execute w r True) ''rows_affected'' = PInt 42 \<and>
   dict_get (execute w r True) ''execution_time_ms'' = PInt 150 \<and>
   dict_get (execute w r True) ''result_preview'' = PList
     [PDict [(''id'', PInt 1), (''name'', PStr ''John Doe''),
             (''email'', PStr ''john@example.com'')],
      PDict [(''id'', PInt 2), (''name'', PStr ''Jane Smith''),
             (''email'', PStr ''jane@example.com'')],
      PDict [(''id'', PInt 3), (''name'', PStr ''Bob Johnson''),
             (''email'', PStr ''bob@example.com'')]] \<and>
   dict_get (extract_metadata w r) ''execution_status'' = PStr ''success'' \<and>
   dict_get (extract_metadata w r) ''rows_affected'' = PInt 42"
  using metadata_status [of w r] metadata_rows [of w r]
  by (simp add: mock_execute_def)

theorem mock_execute_constant_witness:
  "dict_get (execute world0 query0 True) ''status'' = PStr ''success'' \<and>
   dict_get (execute world0 query0 True) ''rows_affected'' = PInt 42 \<and>
   dict_get (extract_metadata world0 query0) ''execution_status'' = PStr ''success'' \<and>
   dict_get (extract_metadata world0 query0) ''rows_affected'' = PInt 42"
  using mock_execute_constant [of world0 query0] by simp

section \<open>Construction of a record\<close>

lemma length_zfill [simp]: "length (zfill k n) = k"
  by (induction k arbitrary: n) simp_all

lemma length_strftime_compact [simp]: "length (strftime_compact dt) = 15"
  by (simp add: strftime_compact_def)

lemma SQLQuery_init_fields [simp]:
  "query (SQLQuery_init now q n d p c) = q"
  "description (SQLQuery_init now q n d p c) = d"
  "parameters (SQLQuery_init now q n d p c) = p"
  "created_at (SQLQuery_init now q n d p c) = Some (case c of None \<Rightarrow> now | Some t \<Rightarrow> t)"
  "name (SQLQuery_init now q n d p c) =
     Some (case n of
             None \<Rightarrow> ''query_'' @ strftime_compact (case c of None \<Rightarrow> now | Some t \<Rightarrow> t)
           | Some given \<Rightarrow> given)"
  by (simp_all add: SQLQuery_init_def post_init_def Let_def)

lemma strftime_t0: "strftime_compact t0 = ''20240229_070509''"
  by code_simp




section \<open>Deserialization without the query entry\<close>

lemma fromisoformat_error:
  "fromisoformat v = Inl e \<Longrightarrow> e = ValueError \<or> e = TypeError"
  by (cases v) (auto simp: fromisoformat_def split: option.splits if_splits)

lemma from_dict_no_query:
  assumes "map_of data ''query'' = None"
  shows "from_dict now data =
     (if truthy (dict_get data ''created_at'')
      then (case fromisoformat (dict_get data ''created_at'') of
              Inl e \<Rightarrow> Inl e
            | Inr dt \<Rightarrow> Inl (KeyError ''query''))
      else Inl (KeyError ''query''))"
proof (cases "truthy (dict_get data ''created_at'')")
  case False
  then show ?thesis
    using assms by (simp add: from_dict_def dict_item_def)
next
  case True
  then obtain v where v: "map_of data ''created_at'' = Some v"
    by (auto simp: dict_get_def split: option.splits)
  then have g: "dict_get data ''created_at'' = v" "dict_item data ''created_at'' = Inr v"
    by (simp_all add: dict_get_def dict_item_def)
  show ?thesis
    using assms True unfolding from_dict_def g
    by (cases "fromisoformat v") (simp_all add: dict_item_def)
qed

lemma parse_not_a_date: "parse_isoformat ''not-a-date'' = None"
  by code_simp

text \<open>
  Claim C4, as stated, fails: \<open>from_dict\<close> parses the \<open>created_at\<close> entry before it reads
  \<open>data["query"]\<close>, so a mapping without \<open>query\<close> whose \<open>created_at\<close> is not a
  timestamp fails with the parser's \<open>ValueError\<close>, not with the error for the missing
  field (\<open>KeyError\<close> in the code).
\<close>

theorem from_dict_timestamp_error_first:
  "map_of [(''created_at'', PStr ''not-a-date'')] ''query'' = None \<and>
   from_dict t0 [(''created_at'', PStr ''not-a-date'')] = Inl ValueError"
  by (simp add: from_dict_def dict_item_def fromisoformat_def parse_not_a_date)

text \<open>
  Claim C4, amended. For every mapping without the \<open>query\<close> entry deserialization fails,
  never succeeds: with the missing-field error \<open>KeyError('query')\<close> when the
  \<open>created_at\<close> entry is absent or false or parses as a timestamp, and with the
  timestamp parser's \<open>ValueError\<close> or \<open>TypeError\<close> when that entry is true and does not
  parse.
\<close>

theorem from_dict_missing_query:
  assumes "map_of data ''query'' = None"
  shows "(\<forall>r. from_dict now data \<noteq> Inr r) \<and>
    (\<not> truthy (dict_get data ''created_at'') \<longrightarrow> from_dict now data = Inl (KeyError ''query'')) \<and>
    (\<forall>dt. fromisoformat (dict_get data ''created_at'') = Inr dt \<longrightarrow>
       from_dict now data = Inl (KeyError ''query'')) \<and>
    (\<forall>e. truthy (dict_get data ''created_at'') \<and>
       fromisoformat (dict_get data ''created_at'') = Inl e \<longrightarrow>
       from_dict now data = Inl e \<and> (e = ValueError \<or> e = TypeError))"
proof -
  note eq = from_dict_no_query [OF assms, of now]
  have a: "\<forall>r. from_dict now data \<noteq> Inr r"
    unfolding eq by (simp split: sum.split)
  have b: "\<not> truthy (dict_get data ''created_at'') \<longrightarrow> from_dict now data = Inl (KeyError ''query'')"
    unfolding eq by simp
  have c: "\<forall>dt. fromisoformat (dict_get data ''created_at'') = Inr dt \<longrightarrow>
       from_dict now data = Inl (KeyError ''query'')"
    unfolding eq by auto
  have d: "\<forall>e. truthy (dict_get data ''created_at'') \<and>
       fromisoformat (dict_get data ''created_at'') = Inl e \<longrightarrow>
       from_dict now data = Inl e \<and> (e = ValueError \<or> e = TypeError)"
    unfolding eq using fromisoformat_error by auto
  from a b c d show ?thesis by blast
qed

theorem from_dict_missing_query_witness:
  "map_of [(''name'', PStr ''q1'')] ''query'' = None \<and>
   from_dict t0 [(''name'', PStr ''q1'')] = Inl (KeyError ''query'')"
proof -
  have h: "map_of [(''name'', PStr ''q1'')] ''query'' = None" by simp
  have "\<not> truthy (dict_get [(''name'', PStr ''q1'')] ''created_at'')" by simp
  with from_dict_missing_query [OF h, of t0] h show ?thesis by blast
qed

section \<open>The batch pipeline stops at the first failed validation\<close>

lemma execute_sql_script_ok:
  assumes "client_init w = None"
  shows "fst (execute_sql_script w n q) = ok_result w n q"
    and "snd (execute_sql_script w n q) =
      [ExecutingScript n, QueryText (take 100 q),
       (case get_secret w ''db_credentials'' of
          Inr secret_values \<Rightarrow>
            UsingCredentials (case map_of secret_values ''host'' of None \<Rightarrow> ''unknown'' | Some h \<Rightarrow> h)
        | Inl msg \<Rightarrow> NoCredentials),
       ScriptExecuted n (fst (classify q))]"
  using assms
  by (simp_all add: execute_sql_script_def ok_result_def Let_def split: prod.split sum.split)

lemma execute_sql_script_error:
  assumes "client_init w = Some msg"
  shows "execute_sql_script w n q =
    (error_result n msg, [ExecutingScript n, QueryText (take 100 q), ScriptError n msg])"
  using assms by (simp add: execute_sql_script_def error_result_def Let_def)

lemma validate_ok_result:
  "validate_results (ok_result w n q) = Inr (True, [ValidationPassed (PStr n)])"
  by (simp add: validate_results_def ok_result_def dict_item_def)



lemma executed_append [simp]: "executed (xs @ ys) = executed xs @ executed ys"
  by (induction xs rule: executed.induct) simp_all

lemma executed_script [simp]: "executed (snd (execute_sql_script w n q)) = [n]"
  by (cases "client_init w")
    (simp_all add: execute_sql_script_ok execute_sql_script_error split: sum.split)






lemma length_results_of [simp]: "length (results_of ws i ss) = length ss"
  by (induction ss arbitrary: i) simp_all







section \<open>A failed secret lookup\<close>

text \<open>
  Claim C9. When \<open>Client()\<close> returns and the lookup of \<open>db_credentials\<close> raises, the
  inner handler catches it: \<open>execute_sql_script\<close> reports that no credentials were
  found, goes on with the mock execution, and returns the status \<open>success\<close> result, with
  no error message, which passes validation.
\<close>

theorem secret_lookup_failure_is_caught:
  assumes "client_init w = None"
    and "get_secret w ''db_credentials'' = Inl msg"
  shows "dict_get (fst (execute_sql_script w n q)) ''status'' = PStr ''success'' \<and>
     map_of (fst (execute_sql_script w n q)) ''error_message'' = None \<and>
     fst (execute_sql_script w n q) = ok_result w n q \<and>
     snd (execute_sql_script w n q) =
       [ExecutingScript n, QueryText (take 100 q), NoCredentials,
        ScriptExecuted n (fst (classify q))] \<and>
     validate_results (fst (execute_sql_script w n q)) =
       Inr (True, [ValidationPassed (PStr n)])"
  using execute_sql_script_ok [OF assms(1), of n q] assms(2)
  by (simp add: validate_ok_result) (simp add: ok_result_def)

theorem secret_lookup_failure_is_caught_witness:
  "get_secret world0 ''db_credentials'' = Inl ''secret not found'' \<and>
   dict_get (fst (execute_sql_script world0 ''s1'' ''DELETE FROM t'')) ''status'' =
     PStr ''success'' \<and>
   map_of (fst (execute_sql_script world0 ''s1'' ''DELETE FROM t'')) ''error_message'' = None \<and>
   validate_results (fst (execute_sql_script world0 ''s1'' ''DELETE FROM t'')) =
     Inr (True, [ValidationPassed (PStr ''s1'')])"
proof -
  have c: "client_init world0 = None" by (simp add: world0_def)
  have g: "get_secret world0 ''db_credentials'' = Inl ''secret not found''"
    by (simp add: world0_def)
  from secret_lookup_failure_is_caught [OF c g, of "''s1''" "''DELETE FROM t''"] g
  show ?thesis by blast
qed

section \<open>Classification by verb\<close>

lemma sample_data_select_keys:
  "length sample_data_select = 3 \<and>
   (\<forall>row \<in> set sample_data_select.
      \<exists>kvs. row = PDict kvs \<and> map fst kvs = [''id'', ''name'', ''status''])"
  by (simp add: sample_data_select_def)

text \<open>
  Claim C2. When \<open>Client()\<close> returns, \<open>execute_sql_script\<close> returns status \<open>success\<close>
  and the canned result of the first of \<open>SELECT\<close>, \<open>INSERT\<close>, \<open>UPDATE\<close>, \<open>DELETE\<close>, in
  this order, that occurs anywhere in the upper-cased query text: \<open>query\<close> with 0 rows
  affected and the three fixed sample rows with keys \<open>id\<close>, \<open>name\<close>, \<open>status\<close>;
  \<open>insert\<close> with 5 and no sample rows; \<open>update\<close> with 12; \<open>delete\<close> with 3; and
  \<open>unknown\<close> with 0 when none occurs.
\<close>

theorem execute_sql_script_canned_result:
  assumes "client_init w = None"
  shows "dict_get (fst (execute_sql_script w n q)) ''status'' = PStr ''success'' \<and>
    (str_contains (upper q) ''SELECT'' \<longrightarrow>
       dict_get (fst (execute_sql_script w n q)) ''result_type'' = PStr ''query'' \<and>
       dict_get (fst (execute_sql_script w n q)) ''rows_affected'' = PInt 0 \<and>
       dict_get (fst (execute_sql_script w n q)) ''sample_data'' = PList sample_data_select) \<and>
    (\<not> str_contains (upper q) ''SELECT'' \<and> str_contains (upper q) ''INSERT'' \<longrightarrow>
       dict_get (fst (execute_sql_script w n q)) ''result_type'' = PStr ''insert'' \<and>
       dict_get (fst (execute_sql_script w n q)) ''rows_affected'' = PInt 5 \<and>
       dict_get (fst (execute_sql_script w n q)) ''sample_data'' = PList []) \<and>
    (\<not> str_contains (upper q) ''SELECT'' \<and> \<not> str_contains (upper q) ''INSERT'' \<and>
     str_contains (upper q) ''UPDATE'' \<longrightarrow>
       dict_get (fst (execute_sql_script w n q)) ''result_type'' = PStr ''update'' \<and>
       dict_get (fst (execute_sql_script w n q)) ''rows_affected'' = PInt 12 \<and>
       dict_get (fst (execute_sql_script w n q)) ''sample_data'' = PList []) \<and>
    (\<not> str_contains (upper q) ''SELECT'' \<and> \<not> str_contains (upper q) ''INSERT'' \<and>
     \<not> str_contains (upper q) ''UPDATE'' \<and> str_contains (upper q) ''DELETE'' \<longrightarrow>
       dict_get (fst (execute_sql_script w n q)) ''result_type'' = PStr ''delete'' \<and>
       dict_get (fst (execute_sql_script w n q)) ''rows_affected'' = PInt 3 \<and>
       dict_get (fst (execute_sql_script w n q)) ''sample_data'' = PList []) \<and>
    (\<not> str_contains (upper q) ''SELECT'' \<and> \<not> str_contains (upper q) ''INSERT'' \<and>
     \<not> str_contains (upper q) ''UPDATE'' \<and> \<not> str_contains (upper q) ''DELETE'' \<longrightarrow>
       dict_get (fst (execute_sql_script w n q)) ''result_type'' = PStr ''unknown'' \<and>
       dict_get (fst (execute_sql_script w n q)) ''rows_affected'' = PInt 0 \<and>
       dict_get (fst (execute_sql_script w n q)) ''sample_data'' = PList []) \<and>
    length sample_data_select = 3 \<and>
    (\<forall>row \<in> set sample_data_select.
       \<exists>kvs. row = PDict kvs \<and> map fst kvs = [''id'', ''name'', ''status''])"
  unfolding execute_sql_script_ok(1) [OF assms]
  using sample_data_select_keys
  by (simp add: ok_result_def classify_def)

lemma upper_insert_select:
  "upper ''insert into t select * from s'' = ''INSERT INTO T SELECT * FROM S''"
  by code_simp

lemma contains_select: "str_contains ''INSERT INTO T SELECT * FROM S'' ''SELECT''"
  by code_simp

theorem execute_sql_script_canned_result_witness:
  "client_init world0 = None \<and>
   str_contains (upper ''insert into t select * from s'') ''SELECT'' \<and>
   dict_get (fst (execute_sql_script world0 ''s1'' ''insert into t select * from s''))
     ''result_type'' = PStr ''query'' \<and>
   dict_get (fst (execute_sql_script world0 ''s1'' ''insert into t select * from s''))
     ''rows_affected'' = PInt 0 \<and>
   dict_get (fst (execute_sql_script world0 ''s1'' ''insert into t select * from s''))
     ''sample_data'' = PList sample_data_select"
proof -
  have c: "client_init world0 = None" by (simp add: world0_def)
  have s: "str_contains (upper ''insert into t select * from s'') ''SELECT''"
    unfolding upper_insert_select by (rule contains_select)
  from execute_sql_script_canned_result [OF c, of "''s1''" "''insert into t select * from s''"] c s
  show ?thesis by blast
qed

section \<open>Keyword extraction\<close>

lemma starts_with_prefix: "starts_with s k \<longleftrightarrow> prefix k s"
  by (induction s k rule: starts_with.induct) auto

lemma str_contains_sublist: "str_contains s k \<longleftrightarrow> sublist k s"
proof (induction s)
  case Nil
  show ?case by simp
next
  case (Cons c cs)
  show ?case
    by (simp add: Cons.IH starts_with_prefix sublist_Cons_right)
qed

lemma fold_append_filter:
  "fold (\<lambda>k acc. if P k then acc @ [k] else acc) xs acc = acc @ filter P xs"
  by (induction xs arbitrary: acc) simp_all

lemma extract_sql_keywords_filter:
  "extract_sql_keywords q = filter (\<lambda>k. sublist k (upper q)) sql_keywords"
  by (simp add: extract_sql_keywords_def Let_def fold_append_filter str_contains_sublist)

lemma join_with_over_in_order: "subseq [''JOIN'', ''WITH'', ''OVER''] sql_keywords"
  by (simp add: sql_keywords_def)

text \<open>
  Claim C6. For every query text the list of matched keywords is the vocabulary filtered
  by literal occurrence in the upper-cased text: a vocabulary keyword is in the list if
  and only if it is a contiguous substring of the upper-cased text (no tokenization), the
  list holds vocabulary keywords only, and it keeps the order of the vocabulary. In
  particular, when \<open>WITH\<close>, \<open>OVER\<close> and \<open>JOIN\<close> occur in the text, all three are in the
  list, in vocabulary order: \<open>JOIN\<close>, \<open>WITH\<close>, \<open>OVER\<close>.
\<close>

theorem extract_sql_keywords_literal_substrings:
  "extract_sql_keywords q = filter (\<lambda>k. sublist k (upper q)) sql_keywords \<and>
   (\<forall>k \<in> set sql_keywords. k \<in> set (extract_sql_keywords q) \<longleftrightarrow> sublist k (upper q)) \<and>
   set (extract_sql_keywords q) \<subseteq> set sql_keywords \<and>
   subseq (extract_sql_keywords q) sql_keywords \<and>
   (sublist ''WITH'' (upper q) \<and> sublist ''OVER'' (upper q) \<and> sublist ''JOIN'' (upper q) \<longrightarrow>
      subseq [''JOIN'', ''WITH'', ''OVER''] (extract_sql_keywords q))"
proof -
  let ?P = "\<lambda>k. sublist k (upper q)"
  have f: "extract_sql_keywords q = filter ?P sql_keywords"
    by (rule extract_sql_keywords_filter)
  have o: "sublist ''WITH'' (upper q) \<and> sublist ''OVER'' (upper q) \<and> sublist ''JOIN'' (upper q) \<longrightarrow>
      subseq [''JOIN'', ''WITH'', ''OVER''] (extract_sql_keywords q)"
  proof
    assume a: "sublist ''WITH'' (upper q) \<and> sublist ''OVER'' (upper q) \<and> sublist ''JOIN'' (upper q)"
    then have e: "filter ?P [''JOIN'', ''WITH'', ''OVER''] = [''JOIN'', ''WITH'', ''OVER'']"
      by simp
    have "subseq (filter ?P [''JOIN'', ''WITH'', ''OVER'']) (filter ?P sql_keywords)"
      using join_with_over_in_order by (rule subseq_filter)
    then show "subseq [''JOIN'', ''WITH'', ''OVER''] (extract_sql_keywords q)"
      unfolding e f .
  qed
  show ?thesis
    using o unfolding f by simp
qed

lemma upper_cte_query:
  "upper cte_query =
     ''WITH T AS (SELECT RANK() OVER (ORDER BY A) R FROM U) SELECT * FROM T JOIN V ON 1=1''"
  unfolding cte_query_def by code_simp

lemma cte_query_contains:
  "str_contains (upper cte_query) ''WITH''"
  "str_contains (upper cte_query) ''OVER''"
  "str_contains (upper cte_query) ''JOIN''"
  unfolding upper_cte_query by code_simp+

lemma reorder_contains: "str_contains (upper ''reorder by x'') ''ORDER BY''"
  by code_simp

lemma order_by_keyword: "''ORDER BY'' \<in> set sql_keywords"
  by (simp add: sql_keywords_def)

theorem extract_sql_keywords_literal_substrings_witness:
  "sublist ''WITH'' (upper cte_query) \<and> sublist ''OVER'' (upper cte_query) \<and>
   sublist ''JOIN'' (upper cte_query) \<and>
   subseq [''JOIN'', ''WITH'', ''OVER''] (extract_sql_keywords cte_query) \<and>
   ''ORDER BY'' \<in> set (extract_sql_keywords ''reorder by x'')"
proof -
  have s: "sublist ''WITH'' (upper cte_query)" "sublist ''OVER'' (upper cte_query)"
    "sublist ''JOIN'' (upper cte_query)"
    using cte_query_contains by (simp_all only: str_contains_sublist)
  have r: "sublist ''ORDER BY'' (upper ''reorder by x'')"
    using reorder_contains by (simp only: str_contains_sublist)
  from extract_sql_keywords_literal_substrings [of cte_query]
    extract_sql_keywords_literal_substrings [of "''reorder by x''"] s r order_by_keyword
  show ?thesis by blast
qed

section \<open>The result table\<close>

lemma fold_append_concat:
  "fold (\<lambda>x acc. acc @ f x) xs acc = acc @ concat (map f xs)"
  by (induction xs arbitrary: acc) simp_all

lemma format_result_table_Cons:
  \<open>format_result_table w (first # rest) =
        ''<table style="width: 100%; border-collapse: collapse; margin: 10px 0;">'' @
        ''<thead><tr>'' @
        concat (map th_cell (map fst first)) @
        ''</tr></thead><tbody>'' @
        concat (map (\<lambda>row.
                  ''<tr>'' @
                  concat (map (\<lambda>header.
                            td_cell (case map_of row header of
                                       None \<Rightarrow> []
                                     | Some v \<Rightarrow> py_str w v))
                        (map fst first)) @
                  ''</tr>'')
             (first # rest)) @
        ''</tbody></table>''\<close>
  by (simp only: format_result_table_def Let_def list.case fold_append_concat append_assoc
      row_get_def)

text \<open>
  Claim C5. For the empty preview \<open>_format_result_table\<close> returns the fixed placeholder.
  For a preview with a first row it returns the table made of one header cell per key of
  the first row, in that row's key order, and one table row per entry of the preview, in
  order, each with one cell per header: the entry's value under that key, or the empty
  string when the entry has no such key.
\<close>

theorem format_result_table_rows_and_headers:
  \<open>format_result_table w [] = ''<p>No results to display.</p>'' \<and>
   (\<forall>first rest. results = first # rest \<longrightarrow>
      format_result_table w results =
        ''<table style="width: 100%; border-collapse: collapse; margin: 10px 0;">'' @
        ''<thead><tr>'' @
        concat (map th_cell (map fst first)) @
        ''</tr></thead><tbody>'' @
        concat (map (\<lambda>row.
                  ''<tr>'' @
                  concat (map (\<lambda>header.
                            td_cell (case map_of row header of
                                       None \<Rightarrow> []
                                     | Some v \<Rightarrow> py_str w v))
                        (map fst first)) @
                  ''</tr>'')
             results) @
        ''</tbody></table>'')\<close>
proof -
  have e: "format_result_table w [] = ''<p>No results to display.</p>''"
    by (simp add: format_result_table_def)
  show ?thesis
    using e by (auto simp only: format_result_table_Cons)
qed

lemma int_str_1_2: "int_str 1 = ''1''" "int_str 2 = ''2''"
  by code_simp+

theorem format_result_table_rows_and_headers_witness:
  \<open>format_result_table world0 rows0 =
     ''<table style="width: 100%; border-collapse: collapse; margin: 10px 0;">'' @
     ''<thead><tr>'' @ th_cell ''id'' @ th_cell ''name'' @ ''</tr></thead><tbody>'' @
     ''<tr>'' @ td_cell ''1'' @ td_cell ''a'' @ ''</tr>'' @
     ''<tr>'' @ td_cell ''2'' @ td_cell '''' @ ''</tr>'' @
     ''</tbody></table>''\<close>
  using format_result_table_rows_and_headers [of world0 rows0]
  by (simp add: rows0_def py_str_def int_str_1_2)

section \<open>The CSV document\<close>

lemma csv_document_comma:
  "generate_csv_metadata world0 query_comma =
     ''attribute,value'' @ csv_eol @
     ''name,a,b'' @ csv_eol @
     ''query_length,8'' @ csv_eol @
     ''query_hash,8'' @ csv_eol @
     ''created_at,2024-02-29 07:05:09.001234'' @ csv_eol @
     ''execution_status,success'' @ csv_eol @
     ''rows_affected,42'' @ csv_eol @
     ''execution_time_ms,150'' @ csv_eol @
     ''has_parameters,False'' @ csv_eol @
     ''parameter_count,0'' @ csv_eol"
  by code_simp

text \<open>
  Claim C7, as stated, fails. For a record named \<open>a,b\<close> the document holds no newline
  character at all (every record ends with the two characters backslash and \<open>n\<close>), so it
  is not a sequence of newline-separated lines of two fields; and values are written
  unescaped, so its second record is \<open>name,a,b\<close>, which has three comma-separated fields.
\<close>

theorem csv_no_newline_and_unescaped_comma:
  "CHR ''\<newline>'' \<notin> set (generate_csv_metadata world0 query_comma) \<and>
   prefix (''attribute,value'' @ csv_eol @ ''name,a,b'' @ csv_eol)
     (generate_csv_metadata world0 query_comma) \<and>
   split_on CHR '','' ''name,a,b'' = [''name'', ''a'', ''b'']"
  unfolding csv_document_comma by (simp add: csv_eol_def)

lemma of_char_digit_char: "d < 10 \<Longrightarrow> of_char (digit_char d) = 48 + d"
  by (simp add: digit_char_def)

lemma digit_char_not_comma: "d < 10 \<Longrightarrow> digit_char d \<noteq> CHR '',''"
proof
  assume d: "d < 10" and e: "digit_char d = CHR '',''"
  from e have "(of_char (digit_char d) :: nat) = of_char CHR '',''" by simp
  with d show False by (simp add: of_char_digit_char)
qed

lemma comma_not_digit_char: "d < 10 \<Longrightarrow> CHR '','' \<noteq> digit_char d"
  using digit_char_not_comma [of d] by auto

lemma comma_zfill: "CHR '','' \<notin> set (zfill k n)"
  by (induction k arbitrary: n) (simp_all add: comma_not_digit_char)

lemma comma_nat_str: "CHR '','' \<notin> set (nat_str n)"
proof (induction n rule: nat_str.induct)
  case (1 n)
  show ?case
  proof (cases "n < 10")
    case True
    then show ?thesis by (simp add: nat_str.simps [of n] comma_not_digit_char)
  next
    case False
    with 1 show ?thesis by (simp add: nat_str.simps [of n] comma_not_digit_char)
  qed
qed

lemma comma_int_str: "CHR '','' \<notin> set (int_str i)"
  by (simp add: int_str_def comma_nat_str)

lemma comma_bool_str: "CHR '','' \<notin> set (bool_str b)"
  by (simp add: bool_str_def)

lemma comma_datetime_str: "CHR '','' \<notin> set (opt_datetime_str c)"
  by (cases c) (simp_all add: opt_datetime_str_def datetime_str_def isoformat_sep_def comma_zfill)

lemma count_split_on: "length (split_on c s) = Suc (count_list s c)"
  by (induction s) (auto split: list.splits)

lemma two_fields:
  assumes "c \<notin> set a" and "c \<notin> set v"
  shows "length (split_on c (a @ [c] @ v)) = 2"
  using assms by (simp add: count_split_on count_list_0_iff)


lemma int_str_42_150: "int_str 42 = ''42''" "int_str 150 = ''150''"
  by code_simp+

lemma generate_csv_records:
  "generate_csv_metadata w data =
     concat (map (\<lambda>(a, v). a @ '','' @ v @ csv_eol) (csv_records w data))"
  by (simp add: generate_csv_metadata_def csv_records_def Let_def py_str_def int_str_42_150)

lemma csv_records_two_fields:
  assumes "CHR '','' \<notin> set (opt_name_str (name data))"
    and "(a, v) \<in> set (csv_records w data)"
  shows "length (split_on CHR '','' (a @ '','' @ v)) = 2"
proof -
  from assms have "CHR '','' \<notin> set a \<and> CHR '','' \<notin> set v"
    unfolding csv_records_def
    by (auto simp: comma_int_str comma_bool_str comma_datetime_str)
  then show ?thesis
    using two_fields [of "CHR '',''" a v] by simp
qed

text \<open>
  Claim C7, amended. For every record and every world the document is the header record
  \<open>attribute,value\<close> followed by one record for each of the nine attributes, in a fixed
  order, every record written as attribute, comma, value and ended by the same terminator
  \<open>csv_eol\<close>; and when the name of the record holds no comma, every record has exactly two
  comma-separated fields.
\<close>

theorem csv_two_column_records:
  "generate_csv_metadata w data =
     concat (map (\<lambda>(a, v). a @ '','' @ v @ csv_eol) (csv_records w data)) \<and>
   map fst (csv_records w data) =
     [''attribute'', ''name'', ''query_length'', ''query_hash'', ''created_at'',
      ''execution_status'', ''rows_affected'', ''execution_time_ms'', ''has_parameters'',
      ''parameter_count''] \<and>
   (CHR '','' \<notin> set (opt_name_str (name data)) \<longrightarrow>
      (\<forall>(a, v) \<in> set (csv_records w data). length (split_on CHR '','' (a @ '','' @ v)) = 2))"
proof -
  have n: "map fst (csv_records w data) =
     [''attribute'', ''name'', ''query_length'', ''query_hash'', ''created_at'',
      ''execution_status'', ''rows_affected'', ''execution_time_ms'', ''has_parameters'',
      ''parameter_count'']"
    by (simp add: csv_records_def)
  have f: "CHR '','' \<notin> set (opt_name_str (name data)) \<longrightarrow>
      (\<forall>(a, v) \<in> set (csv_records w data). length (split_on CHR '','' (a @ '','' @ v)) = 2)"
    using csv_records_two_fields [of data _ _ w] by blast
  from generate_csv_records [of w data] n f show ?thesis by blast
qed

lemma name_query0: "name query0 = Some ''query_20240229_070509''"
  by (simp add: query0_def strftime_t0)

theorem csv_two_column_records_witness:
  "CHR '','' \<notin> set (opt_name_str (name query0)) \<and>
   length (split_on CHR '','' (''name'' @ '','' @ opt_name_str (name query0))) = 2 \<and>
   generate_csv_metadata world0 query0 =
     concat (map (\<lambda>(a, v). a @ '','' @ v @ csv_eol) (csv_records world0 query0))"
proof -
  have c: "CHR '','' \<notin> set (opt_name_str (name query0))"
    by (simp add: name_query0 opt_name_str_def)
  have m: "(''name'', opt_name_str (name query0)) \<in> set (csv_records world0 query0)"
    by (simp add: csv_records_def)
  from csv_two_column_records [of world0 query0] c m show ?thesis
    by blast
qed

section \<open>Serialization round trip\<close>

lemma digit_val_digit_char: "d < 10 \<Longrightarrow> digit_val (digit_char d) = Some d"
  by (simp add: digit_val_def of_char_digit_char)

lemma parse_digits_acc_snoc:
  "parse_digits_acc acc (xs @ [c]) =
     (case parse_digits_acc acc xs of
        None \<Rightarrow> None
      | Some a \<Rightarrow> (case digit_val c of None \<Rightarrow> None | Some d \<Rightarrow> Some (10 * a + d)))"
  by (induction xs arbitrary: acc) (simp_all split: option.split)

lemma parse_digits_acc_zfill:
  "parse_digits_acc acc (zfill k n) = Some (acc * 10 ^ k + n mod 10 ^ k)"
proof (induction k arbitrary: n)
  case 0
  show ?case by simp
next
  case (Suc k)
  have "10 * (n div 10 mod 10 ^ k) + n mod 10 = n mod (10 * 10 ^ k)"
    by (simp add: mod_mult2_eq)
  then show ?case
    by (simp add: parse_digits_acc_snoc Suc.IH digit_val_digit_char algebra_simps)
qed

lemma take_number_zfill:
  assumes "n < 10 ^ k" and "0 < k"
  shows "take_number k (zfill k n @ rest) = Some (n, rest)"
  using assms by (simp add: take_number_def parse_digits_acc_zfill)

lemma expect_Cons [simp]: "expect c (c # s) = Some s"
  by (simp add: expect_def)

lemma parse_isoformat_date_zfill:
  assumes "y < 10000" and "m < 100" and "d < 100"
  shows "parse_isoformat_date
           (zfill 4 y @ CHR ''-'' # zfill 2 m @ CHR ''-'' # zfill 2 d @ rest) =
         Some ((y, m, d), rest)"
  using assms by (simp add: parse_isoformat_date_def take_number_zfill)

lemma parse_fraction_zfill:
  assumes "us < 1000000"
  shows "parse_fraction (if us = 0 then [] else CHR ''.'' # zfill 6 us) = Some us"
  using assms by (simp add: parse_fraction_def parse_digits_acc_zfill)

lemma parse_hh_mm_ss_ff_zfill:
  assumes "h < 100" and "mi < 100" and "s < 100" and "us < 1000000"
  shows "parse_hh_mm_ss_ff
           (zfill 2 h @ CHR '':'' # zfill 2 mi @ CHR '':'' # zfill 2 s @
            (if us = 0 then [] else CHR ''.'' # zfill 6 us)) =
         Some (h, mi, s, us)"
proof -
  have f: "parse_fraction (if us = 0 then [] else CHR ''.'' # zfill 6 us) = Some us"
    using assms(4) by (rule parse_fraction_zfill)
  show ?thesis
    unfolding parse_hh_mm_ss_ff_def
    using assms(1-3) by (simp add: take_number_zfill f del: zfill.simps)
qed

lemma days_in_month_le: "days_in_month y m \<le> 31"
  by (simp add: days_in_month_def)

lemma parse_isoformat_isoformat_sep:
  assumes "valid_datetime dt"
  shows "parse_isoformat (isoformat_sep sep dt) = Some dt"
proof -
  from assms have b: "year dt < 10000" "month dt < 100" "day dt < 100"
    "hour dt < 100" "minute dt < 100" "second dt < 100" "microsecond dt < 1000000"
    using days_in_month_le [of "year dt" "month dt"]
    by (simp_all add: valid_datetime_def)
  have d: "parse_isoformat_date
       (zfill 4 (year dt) @ CHR ''-'' # zfill 2 (month dt) @ CHR ''-'' # zfill 2 (day dt) @
        sep # zfill 2 (hour dt) @ CHR '':'' # zfill 2 (minute dt) @ CHR '':'' #
          zfill 2 (second dt) @
          (if microsecond dt = 0 then [] else CHR ''.'' # zfill 6 (microsecond dt))) =
     Some ((year dt, month dt, day dt),
        sep # zfill 2 (hour dt) @ CHR '':'' # zfill 2 (minute dt) @ CHR '':'' #
          zfill 2 (second dt) @
          (if microsecond dt = 0 then [] else CHR ''.'' # zfill 6 (microsecond dt)))"
    using b(1-3) by (rule parse_isoformat_date_zfill)
  have t: "parse_hh_mm_ss_ff
       (zfill 2 (hour dt) @ CHR '':'' # zfill 2 (minute dt) @ CHR '':'' #
          zfill 2 (second dt) @
          (if microsecond dt = 0 then [] else CHR ''.'' # zfill 6 (microsecond dt))) =
     Some (hour dt, minute dt, second dt, microsecond dt)"
    using b(4-7) by (rule parse_hh_mm_ss_ff_zfill)
  have i: "isoformat_sep sep dt =
       zfill 4 (year dt) @ CHR ''-'' # zfill 2 (month dt) @ CHR ''-'' # zfill 2 (day dt) @
        sep # zfill 2 (hour dt) @ CHR '':'' # zfill 2 (minute dt) @ CHR '':'' #
          zfill 2 (second dt) @
          (if microsecond dt = 0 then [] else CHR ''.'' # zfill 6 (microsecond dt))"
    by (simp add: isoformat_sep_def del: zfill.simps)
  show ?thesis
    unfolding parse_isoformat_def i d by (simp add: t del: zfill.simps)
qed

lemma fromisoformat_isoformat:
  assumes "valid_datetime dt"
  shows "fromisoformat (PStr (isoformat dt)) = Inr dt"
  using assms by (simp add: fromisoformat_def isoformat_def parse_isoformat_isoformat_sep)

lemma isoformat_not_empty: "isoformat dt \<noteq> []"
proof
  assume "isoformat dt = []"
  then have "length (isoformat dt) = 0" by simp
  then show False by (simp add: isoformat_def isoformat_sep_def)
qed

text \<open>
  Claim C1. For every record as the constructor leaves it (name set, \<open>created_at\<close> set to a
  valid timestamp), \<open>from_dict (to_dict r)\<close> succeeds and gives back \<open>r\<close>: query text,
  name, description and parameters are equal, and so is \<open>created_at\<close>, since \<open>isoformat\<close>
  writes a naive timestamp down to its microsecond and \<open>fromisoformat\<close> reads it back.
\<close>

theorem from_dict_to_dict:
  assumes "name r \<noteq> None"
    and "created_at r = Some t"
    and "valid_datetime t"
  shows "from_dict now (to_dict r) = Inr r"
proof -
  from assms(1) obtain n where n: "name r = Some n" by auto
  have c: "fromisoformat (PStr (isoformat t)) = Inr t"
    using assms(3) by (rule fromisoformat_isoformat)
  have i: "SQLQuery_init now (query r) (Some n) (description r) (parameters r) (Some t) = r"
    using n assms(2) by (simp add: SQLQuery_init_def post_init_def)
  have "from_dict now (to_dict r) =
      Inr (SQLQuery_init now (query r) (Some n) (description r) (parameters r) (Some t))"
    by (simp add: from_dict_def to_dict_def n assms(2) dict_item_def isoformat_not_empty c
        opt_str_def as_str_def as_opt_str_def as_opt_dict_def split: option.split)
  then show ?thesis
    by (simp only: i)
qed

lemma valid_t0: "valid_datetime t0"
  by (simp add: valid_datetime_def t0_def days_in_month_def is_leap_def)

theorem from_dict_to_dict_witness:
  "name query0 \<noteq> None \<and> created_at query0 = Some t0 \<and> valid_datetime t0 \<and>
   from_dict t0 (to_dict query0) = Inr query0"
proof -
  have n: "name query0 \<noteq> None" by (simp add: query0_def)
  have c: "created_at query0 = Some t0" by (simp add: query0_def)
  from from_dict_to_dict [OF n c valid_t0, of t0] n c valid_t0 show ?thesis
    by blast
qed

end
